theory Spec2Isabelle
  imports Main "HOL-Library.AList"
begin

section \<open>Python values used by \<open>cli.py\<close>\<close>

text \<open>
  Exceptions are values. A method of \<open>IGCLI\<close> is a function from the state to a pair
  of its outcome (\<open>Inl\<close> an exception, \<open>Inr\<close> the returned value) and the state it
  leaves behind: an assignment made before a \<open>raise\<close> stays made.
\<close>

datatype error =
    KeyError string
  | IndexError
  | AttributeError string
  | ValueError
  | NotFoundError
  | BadRequestError
  | FileNotFoundError
  | ClientError string

subsection \<open>Strings\<close>

text \<open>
  A \<open>string\<close> is a list of code points below 256. \<open>isspace\<close> is Python's
  \<open>str.isspace\<close> on that range: tab to carriage return, the four separators
  \<open>0x1c\<close> to \<open>0x1f\<close>, the space, \<open>0x85\<close> and \<open>0xa0\<close>.
\<close>

definition isspace :: "char \<Rightarrow> bool" where
  "isspace c =
     (let n = (of_char c :: nat)
      in (9 \<le> n \<and> n \<le> 13) \<or> (28 \<le> n \<and> n \<le> 32) \<or> n = 133 \<or> n = 160)"

text \<open>
  \<open>text.split()\<close>: runs of whitespace separate the tokens and no token is empty.
  The first argument is the token read so far.
\<close>

fun split_from :: "string \<Rightarrow> string \<Rightarrow> string list" where
  "split_from cur [] = (if cur = [] then [] else [cur])"
| "split_from cur (c # cs) =
     (if isspace c then (if cur = [] then split_from [] cs else cur # split_from [] cs)
      else split_from (cur @ [c]) cs)"

definition split :: "string \<Rightarrow> string list" where
  "split text = split_from [] text"

text \<open>
  \<open>text.split(sep)\<close> with a one-character separator: every occurrence separates,
  so adjacent separators give empty tokens and the result is never empty.
\<close>

fun split_sep_from :: "char \<Rightarrow> string \<Rightarrow> string \<Rightarrow> string list" where
  "split_sep_from sep cur [] = [cur]"
| "split_sep_from sep cur (c # cs) =
     (if c = sep then cur # split_sep_from sep [] cs else split_sep_from sep (cur @ [c]) cs)"

definition split_sep :: "char \<Rightarrow> string \<Rightarrow> string list" where
  "split_sep sep text = split_sep_from sep [] text"

text \<open>\<open>sep.join(xs)\<close>.\<close>

fun join :: "string \<Rightarrow> string list \<Rightarrow> string" where
  "join sep [] = []"
| "join sep [x] = x"
| "join sep (x # y # ys) = x @ sep @ join sep (y # ys)"

text \<open>
  The format specifications of the source on a string: \<open>{x:15}\<close> pads on the right,
  \<open>{x:>9}\<close> on the left, \<open>{x:-^60}\<close> on both sides with the smaller half on the
  left. None of them truncates.
\<close>

definition ljust :: "nat \<Rightarrow> string \<Rightarrow> string" where
  "ljust w x = x @ replicate (w - length x) CHR '' ''"

definition rjust :: "nat \<Rightarrow> string \<Rightarrow> string" where
  "rjust w x = replicate (w - length x) CHR '' '' @ x"

definition center :: "char \<Rightarrow> nat \<Rightarrow> string \<Rightarrow> string" where
  "center fill w x =
     (let pad = w - length x; left = pad div 2
      in replicate left fill @ x @ replicate (pad - left) fill)"

definition newline :: string where
  "newline = [CHR 0x0A]"

text \<open>\<open>str(n)\<close> for an integer.\<close>

fun str_nat :: "nat \<Rightarrow> string" where
  "str_nat n =
     (if n < 10 then [char_of (48 + n)] else str_nat (n div 10) @ [char_of (48 + n mod 10)])"

declare str_nat.simps [simp del]

definition str_int :: "int \<Rightarrow> string" where
  "str_int i = (if i < 0 then CHR ''-'' # str_nat (nat (- i)) else str_nat (nat i))"

text \<open>\<open>str(x)\<close> for a value that is a string or \<open>None\<close>.\<close>

definition str_opt :: "string option \<Rightarrow> string" where
  "str_opt x = (case x of None \<Rightarrow> ''None'' | Some v \<Rightarrow> v)"

section \<open>The configuration dictionary\<close>

text \<open>
  \<open>self.config\<close> is a dictionary read from YAML. The program reads four keys of it;
  a key that is absent is \<open>None\<close> here, and reading it raises \<open>KeyError\<close>. The
  values have the types the program uses them at. \<open>other_keys\<close> are the keys of the
  dictionary the program never reads: they only count for its truth value. \<open>aliases\<close>
  is the key \<open>'alias'\<close>, an association list in insertion order.

  The value of \<open>'tracked'\<close> is a list, which the program changes in place. In a
  YAML file it is the list written there (\<open>string list config\<close>). In the program it
  is a reference to a list object (\<open>list_ref config\<close>): a list of the dictionary's
  own, or the one list object that the class attribute \<open>config_default\<close> holds under
  \<open>'tracked'\<close>, which every dictionary filled from \<open>config_default\<close> shares.
\<close>

datatype list_ref = Own "string list" | Shared_default

record 'l config =
  refresh :: "int option"
  currency :: "string option"
  tracked :: "'l option"
  aliases :: "(string \<times> string) list option"
  other_keys :: "string list"

text \<open>What a reference holds, given what the shared default list holds.\<close>

definition deref :: "string list \<Rightarrow> list_ref \<Rightarrow> string list" where
  "deref dflt r = (case r of Own xs \<Rightarrow> xs | Shared_default \<Rightarrow> dflt)"

text \<open>
  A dictionary as \<open>yaml.safe_load\<close> makes it, with a new list object of its own,
  and as \<open>yaml.dump\<close> writes it, with what its list holds.
\<close>

definition from_yaml :: "string list config \<Rightarrow> list_ref config" where
  "from_yaml c =
     \<lparr>refresh = refresh c, currency = currency c, tracked = map_option Own (tracked c),
      aliases = aliases c, other_keys = other_keys c\<rparr>"

definition to_yaml :: "string list \<Rightarrow> list_ref config \<Rightarrow> string list config" where
  "to_yaml dflt c =
     \<lparr>refresh = refresh c, currency = currency c, tracked = map_option (deref dflt) (tracked c),
      aliases = aliases c, other_keys = other_keys c\<rparr>"

text \<open>The empty dictionary \<open>{}\<close>.\<close>

definition empty_config :: "'l config" where
  "empty_config =
     \<lparr>refresh = None, currency = None, tracked = None, aliases = None, other_keys = []\<rparr>"

text \<open>
  \<open>IGCLI.config_default\<close>, lines 66 to 70, a class attribute. Its \<open>'tracked'\<close>
  is the shared list object, empty when the class is made; what the list holds later is
  the field \<open>default_tracked\<close> of the state.
\<close>

definition config_default :: "list_ref config" where
  "config_default =
     \<lparr>refresh = Some 5, currency = Some ''USD'', tracked = Some Shared_default,
      aliases = None, other_keys = []\<rparr>"

text \<open>The truth value of a dictionary: it is not empty.\<close>

definition truthy :: "'l config \<Rightarrow> bool" where
  "truthy c \<longleftrightarrow> c \<noteq> empty_config"

text \<open>
  Lines 161 to 163: for each key of \<open>config_default\<close>, a key that is not in the
  configuration is set to the default, which for \<open>'tracked'\<close> is the shared list
  object itself. A key that \<open>config_default\<close> does not have is left as it is.
\<close>

definition fill :: "'a option \<Rightarrow> 'a option \<Rightarrow> 'a option" where
  "fill cur dflt = (case cur of None \<Rightarrow> dflt | Some v \<Rightarrow> Some v)"

definition backfill :: "list_ref config \<Rightarrow> list_ref config" where
  "backfill c =
     c\<lparr>refresh := fill (refresh c) (refresh config_default),
       currency := fill (currency c) (currency config_default),
       tracked := fill (tracked c) (tracked config_default),
       aliases := fill (aliases c) (aliases config_default)\<rparr>"

section \<open>The state of the program\<close>

text \<open>
  A \<open>RepeatTimer\<close> is a thread. \<open>func\<close> names the bound method it was given.
  \<open>pc\<close> is where the thread stands in \<open>run\<close> (lines 56 to 60): created and
  not started; at the head of the \<open>while\<close>, about to read the global \<open>stop_threads\<close>;
  inside \<open>wait\<close> on the event it read; inside \<open>self.func()\<close>; returned from \<open>run\<close>;
  ended by an exception.
\<close>

datatype func = Update_status | Update_positions | Update_activity | Update_orders | Update_trackers

datatype pc = Created | Looping | Waiting nat | Calling | Finished | Crashed error

record timer =
  interval :: int
  func :: func
  pc :: pc

text \<open>
  The YAML file maps an account identifier to a configuration. A file that is empty and a
  file that holds the empty mapping are both \<open>[]\<close>: the program tests the loaded value
  for truth only.
\<close>

type_synonym store = "(string option \<times> string list config) list"

text \<open>
  The fields of an \<open>IGCLI\<close> object, the module global \<open>stop_threads\<close> and the
  objects they refer to. \<open>events\<close> is the heap of \<open>Event\<close> objects, each one its
  flag; \<open>stop_event\<close> is the global, \<open>None\<close> or the address of an event.
  \<open>timers\<close> is the heap of \<open>RepeatTimer\<close> objects and the four thread fields hold
  addresses in it. The text areas are their texts. \<open>logger\<close> is what the \<open>IGCLI\<close>
  logger has written; the two debug lines of \<open>RepeatTimer\<close>, which print a thread
  identifier, are left out. \<open>files\<close> is the file system, by file name.
  \<open>default_tracked\<close> is what the list object of \<open>config_default['tracked']\<close>
  holds.
\<close>

record state =
  authd :: bool
  ident :: "string option"
  config :: "list_ref config"
  default_tracked :: "string list"
  client :: "string option"
  config_file :: string
  files :: "(string \<times> store) list"
  positions_thread :: "nat option"
  activity_thread :: "nat option"
  orders_thread :: "nat option"
  trackers_thread :: "nat option"
  status_thread :: nat
  stop_event :: "nat option"
  events :: "bool list"
  timers :: "timer list"
  positions_field :: string
  activity_field :: string
  orders_field :: string
  trackers_field :: string
  msg_field :: string
  status_field :: string
  logger :: "string list"

type_synonym 'a result = "(error + 'a) \<times> state"

text \<open>Sequencing: an exception ends the sequence, with the state reached.\<close>

definition bind :: "'a result \<Rightarrow> ('a \<Rightarrow> state \<Rightarrow> 'b result) \<Rightarrow> 'b result" where
  "bind r f = (case r of (Inl e, s) \<Rightarrow> (Inl e, s) | (Inr a, s) \<Rightarrow> f a s)"

text \<open>A \<open>for\<close> loop over a list whose body is a method call.\<close>

fun for_each :: "('a \<Rightarrow> state \<Rightarrow> unit result) \<Rightarrow> 'a list \<Rightarrow> state \<Rightarrow> unit result" where
  "for_each body [] s = (Inr (), s)"
| "for_each body (x # xs) s = bind (body x s) (\<lambda>_. for_each body xs)"

subsection \<open>What is outside the program\<close>

text \<open>
  A market as \<open>update_trackers\<close> reads it: \<open>market['instrument']['name']\<close> and the
  four numbers of \<open>market['snapshot']\<close>, each a number or \<open>None\<close>.
\<close>

record 'n market =
  instrument_name :: string
  low :: "'n option"
  high :: "'n option"
  bid :: "'n option"
  offer :: "'n option"

text \<open>
  The answers of the external client \<open>igapi_python\<close> and of the clock, and Python's
  own rendering of a number of type \<open>'n\<close>: \<open>num_str\<close> is \<open>format(x, '>9')\<close>
  before padding, \<open>num_zero\<close> says that the number is zero, which is when
  \<open>x or '-'\<close> is \<open>'-'\<close>. For positions, orders and activities the environment
  gives the line that \<open>line.format(...)\<close> makes of each record: these use the
  fixed-point formatting of floating-point numbers.
\<close>

record 'n env =
  utcnow :: string
  login_answer :: "string \<Rightarrow> string \<Rightarrow> error + bool"
  get_market :: "string \<Rightarrow> error + unit"
  get_markets :: "string list \<Rightarrow> error + 'n market list"
  get_positions :: "error + string list"
  get_orders :: "error + string list"
  get_activity :: "error + string list"
  search_market :: "string \<Rightarrow> error + (string \<times> string) list"
  add_position :: "string \<Rightarrow> string \<Rightarrow> string \<Rightarrow> error + unit"
  num_str :: "'n \<Rightarrow> string"
  num_zero :: "'n \<Rightarrow> bool"

subsection \<open>Messages and the guard\<close>

text \<open>\<open>msg_out\<close>, lines 298 to 301.\<close>

definition msg_out :: "string \<Rightarrow> state \<Rightarrow> state" where
  "msg_out text s = s\<lparr>msg_field := msg_field s @ newline @ text\<rparr>"

definition log_line :: "string \<Rightarrow> state \<Rightarrow> state" where
  "log_line text s = s\<lparr>logger := logger s @ [text]\<rparr>"

text \<open>
  Modelled from the spec: the decorator \<open>req_auth\<close> of \<open>utils.py\<close>, which is not
  part of the source at hand. The spec gives it as the guard
  \<open>if not session.authenticated: report(AuthRequiredError); return\<close>: the decorated
  method runs when \<open>authd\<close> holds; otherwise a message is appended to the operator's
  message log and the call returns \<open>None\<close>. The spec does not fix the text of the message.
\<close>

definition auth_required :: string where
  "auth_required = ''Authentication required''"

definition req_auth :: "(state \<Rightarrow> unit result) \<Rightarrow> state \<Rightarrow> unit result" where
  "req_auth method s = (if authd s then method s else (Inr (), msg_out auth_required s))"

subsection \<open>The list of tracked markets\<close>

text \<open>
  What the list \<open>self.config['tracked']\<close> holds, when the key is there, and a change
  of that list in place: it is made in the list object the key refers to, which is the
  shared default list when the key was filled from \<open>config_default\<close>.
\<close>

definition tracked_list :: "state \<Rightarrow> string list option" where
  "tracked_list s = map_option (deref (default_tracked s)) (tracked (config s))"

definition store_tracked :: "string list \<Rightarrow> state \<Rightarrow> state" where
  "store_tracked xs s =
     (case tracked (config s) of
        None \<Rightarrow> s
      | Some (Own _) \<Rightarrow> s\<lparr>config := (config s)\<lparr>tracked := Some (Own xs)\<rparr>\<rparr>
      | Some Shared_default \<Rightarrow> s\<lparr>default_tracked := xs\<rparr>)"

section \<open>The session\<close>

subsection \<open>Loading and writing the configuration\<close>

text \<open>
  The last statement of \<open>load_config\<close> (lines 166 to 168) reads three keys in turn
  while it builds the message.
\<close>

definition load_report :: "state \<Rightarrow> error + string" where
  "load_report s =
     (case refresh (config s) of None \<Rightarrow> Inl (KeyError ''refresh'')
      | Some r \<Rightarrow>
     (case currency (config s) of None \<Rightarrow> Inl (KeyError ''currency'')
      | Some cur \<Rightarrow>
     (case tracked_list s of None \<Rightarrow> Inl (KeyError ''tracked'')
      | Some tr \<Rightarrow>
        Inr (''... Refresh rate: '' @ str_int r @ '' s'' @ newline @
             ''... Currency: '' @ cur @ newline @
             ''... Added '' @ str_nat (length tr) @ '' trackers''))))"

text \<open>
  \<open>load_config\<close>, lines 153 to 168. \<open>loaded.get(self._id, {})\<close> is the entry of
  the account, or the empty dictionary; the defaults are filled in only below
  \<open>if self.config:\<close>. \<open>config_default.copy()\<close> is a shallow copy: a new
  dictionary with the values of \<open>config_default\<close>, the shared list object among
  them.
\<close>

definition load_config_body :: "string \<Rightarrow> state \<Rightarrow> unit result" where
  "load_config_body filename s =
     (let s1 = msg_out (''Loading '' @ str_opt (ident s) @ '' configuration...'') s
      in case map_of (files s1) filename of
           None \<Rightarrow> (Inl FileNotFoundError, s1)
         | Some loaded \<Rightarrow>
             (let s2 =
                (if loaded \<noteq> [] then
                   (let c = (case map_of loaded (ident s1) of None \<Rightarrow> empty_config | Some c \<Rightarrow> c)
                    in s1\<lparr>config := (if truthy c then backfill (from_yaml c) else from_yaml c)\<rparr>)
                 else s1\<lparr>config := config_default\<rparr>)
              in case load_report s2 of
                   Inl e \<Rightarrow> (Inl e, s2)
                 | Inr text \<Rightarrow> (Inr (), msg_out text s2)))"

definition load_config :: "string \<Rightarrow> state \<Rightarrow> unit result" where
  "load_config filename = req_auth (load_config_body filename)"

text \<open>\<open>write_config\<close>, lines 252 to 260.\<close>

definition write_config_body :: "state \<Rightarrow> unit result" where
  "write_config_body s =
     (case map_of (files s) (config_file s) of
        None \<Rightarrow> (Inl FileNotFoundError, s)
      | Some loaded \<Rightarrow>
          (Inr (), s\<lparr>files := AList.update (config_file s)
                                 (AList.update (ident s)
                                    (to_yaml (default_tracked s) (config s)) loaded)
                                 (files s)\<rparr>))"

definition write_config :: "state \<Rightarrow> unit result" where
  "write_config = req_auth write_config_body"

subsection \<open>Starting and stopping the refresh threads\<close>

text \<open>
  \<open>RepeatTimer(func, interval)\<close> makes a new thread object and returns its address;
  \<open>start\<close> lets it run.
\<close>

definition RepeatTimer :: "func \<Rightarrow> int \<Rightarrow> state \<Rightarrow> nat \<times> state" where
  "RepeatTimer f i s =
     (length (timers s), s\<lparr>timers := timers s @ [\<lparr>interval = i, func = f, pc = Created\<rparr>]\<rparr>)"

definition set_pc :: "nat \<Rightarrow> pc \<Rightarrow> state \<Rightarrow> state" where
  "set_pc i p s = s\<lparr>timers := (timers s)[i := (timers s ! i)\<lparr>pc := p\<rparr>]\<rparr>"

definition start :: "nat \<Rightarrow> state \<Rightarrow> state" where
  "start i s = set_pc i Looping s"

text \<open>
  \<open>start_threads\<close>, lines 212 to 235. Each of the four constructor calls reads
  \<open>self.config['refresh']\<close>; the first one raises when the key is absent.
\<close>

definition start_threads_body :: "state \<Rightarrow> unit result" where
  "start_threads_body s =
     (if positions_thread s \<noteq> None \<and> trackers_thread s \<noteq> None then
        (Inr (), log_line ''Threads already running!'' s)
      else
        (let s0 = (if stop_event s = None
                   then s\<lparr>stop_event := Some (length (events s)), events := events s @ [False]\<rparr>
                   else s)
         in case refresh (config s0) of
              None \<Rightarrow> (Inl (KeyError ''refresh''), s0)
            | Some r \<Rightarrow>
                (let (p, s1) = RepeatTimer Update_positions r s0;
                     s2 = s1\<lparr>positions_thread := Some p\<rparr>;
                     (a, s3) = RepeatTimer Update_activity r s2;
                     s4 = s3\<lparr>activity_thread := Some a\<rparr>;
                     (ord, s5) = RepeatTimer Update_orders r s4;
                     s6 = s5\<lparr>orders_thread := Some ord\<rparr>;
                     (t, s7) = RepeatTimer Update_trackers r s6;
                     s8 = s7\<lparr>trackers_thread := Some t\<rparr>
                 in (Inr (), start t (start ord (start a (start p s8)))))))"

definition start_threads :: "state \<Rightarrow> unit result" where
  "start_threads = req_auth start_threads_body"

text \<open>
  \<open>stop_threads\<close>, lines 237 to 245. \<open>stop_threads.set()\<close> on the global that is
  \<open>None\<close> raises.
\<close>

definition stop_threads_body :: "state \<Rightarrow> unit result" where
  "stop_threads_body s =
     (case stop_event s of
        None \<Rightarrow> (Inl (AttributeError ''set''), s)
      | Some e \<Rightarrow>
          (Inr (), s\<lparr>events := (events s)[e := True],
                      positions_thread := None,
                      activity_thread := None,
                      orders_thread := None,
                      trackers_thread := None,
                      stop_event := None\<rparr>))"

definition stop_threads :: "state \<Rightarrow> unit result" where
  "stop_threads = req_auth stop_threads_body"

text \<open>\<open>restart_threads\<close>, lines 247 to 250.\<close>

definition restart_threads :: "state \<Rightarrow> unit result" where
  "restart_threads = req_auth (\<lambda>s. bind (stop_threads s) (\<lambda>_. start_threads))"

text \<open>The key binding \<open>exit_ctrl_q\<close>, lines 385 to 390, up to leaving the application.\<close>

definition exit_ctrl_q :: "state \<Rightarrow> unit result" where
  "exit_ctrl_q s =
     (case stop_event s of
        None \<Rightarrow> (Inl (AttributeError ''set''), s)
      | Some e \<Rightarrow> (Inr (), s\<lparr>events := (events s)[e := True]\<rparr>))"

subsection \<open>Logging in and out\<close>

text \<open>
  \<open>login\<close>, lines 194 to 202. \<open>load_config()\<close> is called with its default file name.
\<close>

definition login :: "'n env \<Rightarrow> string \<Rightarrow> string \<Rightarrow> state \<Rightarrow> bool result" where
  "login env identifier password s =
     (case client s of
        None \<Rightarrow> (Inl (AttributeError ''login''), s)
      | Some _ \<Rightarrow>
          (case login_answer env identifier password of
             Inl e \<Rightarrow> (Inl e, s)
           | Inr successful \<Rightarrow>
               if successful then
                 bind (load_config ''config.yml'' (s\<lparr>authd := True, ident := Some identifier\<rparr>))
                   (\<lambda>_ s1. bind (start_threads s1) (\<lambda>_ s2. (Inr True, s2)))
               else (Inr False, s)))"

text \<open>
  \<open>logout\<close>, lines 204 to 210. The two private attributes it sets to \<open>None\<close> are
  read nowhere. Its last statement is \<open>self.stop_treads()\<close>: the class defines
  \<open>stop_threads\<close> (line 238) and no attribute \<open>stop_treads\<close>, so looking the name up
  raises \<open>AttributeError\<close> and nothing is called.
\<close>

definition logout_body :: "state \<Rightarrow> unit result" where
  "logout_body s =
     (let s1 = s\<lparr>ident := None\<rparr>;
          s2 = s1\<lparr>config := empty_config\<rparr>
      in (Inl (AttributeError ''stop_treads''), s2))"

definition logout :: "state \<Rightarrow> unit result" where
  "logout = req_auth logout_body"

subsection \<open>Tracked markets\<close>

text \<open>
  \<open>add_tracker\<close>, lines 262 to 268: of what \<open>get_market\<close> raises, only
  \<open>NotFoundError\<close> is caught. \<open>append\<close> changes the list in place.
\<close>

definition add_tracker_body :: "'n env \<Rightarrow> string \<Rightarrow> state \<Rightarrow> unit result" where
  "add_tracker_body env tracker s =
     (case client s of
        None \<Rightarrow> (Inl (AttributeError ''get_market''), s)
      | Some _ \<Rightarrow>
          (case get_market env tracker of
             Inl e \<Rightarrow>
               (if e = NotFoundError
                then (Inr (), msg_out (''Unable to find market: '' @ tracker) s)
                else (Inl e, s))
           | Inr _ \<Rightarrow>
               (case tracked_list s of
                  None \<Rightarrow> (Inl (KeyError ''tracked''), s)
                | Some tr \<Rightarrow> (Inr (), store_tracked (tr @ [tracker]) s))))"

definition add_tracker :: "'n env \<Rightarrow> string \<Rightarrow> state \<Rightarrow> unit result" where
  "add_tracker env tracker = req_auth (add_tracker_body env tracker)"

text \<open>
  \<open>del_tracker\<close>, lines 270 to 273: \<open>remove\<close> takes out the first occurrence, in
  place.
\<close>

definition del_tracker_body :: "string \<Rightarrow> state \<Rightarrow> unit result" where
  "del_tracker_body tracker s =
     (case tracked_list s of
        None \<Rightarrow> (Inl (KeyError ''tracked''), s)
      | Some tr \<Rightarrow>
          (if tracker \<in> set tr
           then (Inr (), store_tracked (remove1 tracker tr) s)
           else (Inr (), s)))"

definition del_tracker :: "string \<Rightarrow> state \<Rightarrow> unit result" where
  "del_tracker tracker = req_auth (del_tracker_body tracker)"

section \<open>The refresh actions\<close>

text \<open>
  The loop shared by the four actions: \<open>buf += line\<close>, then a newline unless
  \<open>i+1\<close> is \<open>n\<close>. The arguments are \<open>i\<close>, \<open>n\<close>, the lines still to come
  and \<open>buf\<close>.
\<close>

fun add_lines :: "nat \<Rightarrow> nat \<Rightarrow> string list \<Rightarrow> string \<Rightarrow> string" where
  "add_lines i n [] buf = buf"
| "add_lines i n (line # rest) buf =
     add_lines (Suc i) n rest (if Suc i \<noteq> n then buf @ line @ newline else buf @ line)"

definition header :: "string \<Rightarrow> string" where
  "header title = center CHR ''-'' 60 title @ newline"

text \<open>\<open>update_positions\<close>, lines 304 to 322.\<close>

definition update_positions_body :: "'n env \<Rightarrow> state \<Rightarrow> unit result" where
  "update_positions_body env s =
     (let s1 = log_line ''Updating positions...'' s
      in case client s1 of
           None \<Rightarrow> (Inl (AttributeError ''get_positions_profitloss''), s1)
         | Some _ \<Rightarrow>
             (case get_positions env of
                Inl e \<Rightarrow> (Inl e, s1)
              | Inr positions \<Rightarrow>
                  (Inr (), s1\<lparr>positions_field :=
                     add_lines 0 (length positions) positions (header '' POSITIONS '')\<rparr>)))"

definition update_positions :: "'n env \<Rightarrow> state \<Rightarrow> unit result" where
  "update_positions env = req_auth (update_positions_body env)"

text \<open>\<open>update_activity\<close>, lines 324 to 343: no header.\<close>

definition update_activity_body :: "'n env \<Rightarrow> state \<Rightarrow> unit result" where
  "update_activity_body env s =
     (let s1 = log_line ''Updating activity...'' s
      in case client s1 of
           None \<Rightarrow> (Inl (AttributeError ''get_activity''), s1)
         | Some _ \<Rightarrow>
             (case get_activity env of
                Inl e \<Rightarrow> (Inl e, s1)
              | Inr activities \<Rightarrow>
                  (Inr (), s1\<lparr>activity_field :=
                     add_lines 0 (length activities) activities []\<rparr>)))"

definition update_activity :: "'n env \<Rightarrow> state \<Rightarrow> unit result" where
  "update_activity env = req_auth (update_activity_body env)"

text \<open>\<open>update_orders\<close>, lines 345 to 361.\<close>

definition update_orders_body :: "'n env \<Rightarrow> state \<Rightarrow> unit result" where
  "update_orders_body env s =
     (let s1 = log_line ''Updating orders...'' s
      in case client s1 of
           None \<Rightarrow> (Inl (AttributeError ''get_working_orders''), s1)
         | Some _ \<Rightarrow>
             (case get_orders env of
                Inl e \<Rightarrow> (Inl e, s1)
              | Inr orders \<Rightarrow>
                  (Inr (), s1\<lparr>orders_field :=
                     add_lines 0 (length orders) orders (header '' ORDERS '')\<rparr>)))"

definition update_orders :: "'n env \<Rightarrow> state \<Rightarrow> unit result" where
  "update_orders env = req_auth (update_orders_body env)"

text \<open>
  \<open>update_trackers\<close>, lines 363 to 378. \<open>x or '-'\<close> is \<open>'-'\<close> when \<open>x\<close> is
  \<open>None\<close> or zero. The loop runs over the markets the client returned and compares
  \<open>i+1\<close> with the length of \<open>self.config['tracked']\<close>.
\<close>

definition or_dash :: "'n env \<Rightarrow> 'n option \<Rightarrow> string" where
  "or_dash env x =
     (case x of None \<Rightarrow> ''-'' | Some v \<Rightarrow> if num_zero env v then ''-'' else num_str env v)"

definition tracker_line :: "'n env \<Rightarrow> 'n market \<Rightarrow> string" where
  "tracker_line env m =
     ljust 15 (instrument_name m) @ '' || '' @ rjust 9 (or_dash env (low m)) @ '' | '' @
     rjust 9 (or_dash env (high m)) @ '' || '' @ rjust 9 (or_dash env (bid m)) @ '' | '' @
     rjust 9 (or_dash env (offer m))"

definition update_trackers_body :: "'n env \<Rightarrow> state \<Rightarrow> unit result" where
  "update_trackers_body env s =
     (let s1 = log_line ''Updating trackers...'' s
      in case client s1 of
           None \<Rightarrow> (Inl (AttributeError ''get_markets''), s1)
         | Some _ \<Rightarrow>
             (case tracked_list s1 of
                None \<Rightarrow> (Inl (KeyError ''tracked''), s1)
              | Some tr \<Rightarrow>
                  (case get_markets env tr of
                     Inl e \<Rightarrow> (Inl e, s1)
                   | Inr markets \<Rightarrow>
                       (Inr (), s1\<lparr>trackers_field :=
                          add_lines 0 (length tr) (map (tracker_line env) markets)
                            (header '' TRACKERS '')\<rparr>))))"

definition update_trackers :: "'n env \<Rightarrow> state \<Rightarrow> unit result" where
  "update_trackers env = req_auth (update_trackers_body env)"

text \<open>The property \<open>status\<close> and \<open>update_status\<close>, lines 170 to 181.\<close>

definition status :: "'n env \<Rightarrow> state \<Rightarrow> string" where
  "status env s =
     utcnow env @ '' || Status: '' @
     (if \<not> authd s then ''Offline |'' else ''Online | ID: '' @ str_opt (ident s) @ '' '')"

definition update_status :: "'n env \<Rightarrow> state \<Rightarrow> unit result" where
  "update_status env s = (Inr (), s\<lparr>status_field := status env s\<rparr>)"

section \<open>The commands\<close>

text \<open>\<open>_cmd__update\<close>, lines 401 to 406.\<close>

definition cmd_update :: "'n env \<Rightarrow> string list \<Rightarrow> state \<Rightarrow> unit result" where
  "cmd_update env args =
     req_auth (\<lambda>s.
       bind (update_positions env s) (\<lambda>_ s1.
       bind (update_orders env s1) (\<lambda>_ s2.
       bind (update_trackers env s2) (\<lambda>_ s3.
       (Inr (), msg_out ''Updated positions, orders and trackers'' s3)))))"

text \<open>\<open>set_api\<close>, lines 191 and 192, and \<open>_cmd__api\<close>, lines 408 to 413.\<close>

definition set_api :: "string \<Rightarrow> state \<Rightarrow> state" where
  "set_api api_key s = s\<lparr>client := Some api_key\<rparr>"

definition cmd_api :: "string list \<Rightarrow> state \<Rightarrow> unit result" where
  "cmd_api args s =
     (case args of
        [key] \<Rightarrow> (Inr (), msg_out ''Updated API key'' (set_api key s))
      | _ \<Rightarrow> (Inr (), msg_out ''Invalid syntax, expected: api <key>'' s))"

text \<open>\<open>_cmd__login\<close>, lines 415 to 425.\<close>

definition cmd_login :: "'n env \<Rightarrow> string list \<Rightarrow> state \<Rightarrow> unit result" where
  "cmd_login env args s =
     (case args of
        [username, password] \<Rightarrow>
          bind (login env username password s) (\<lambda>successful s1.
            (Inr (), msg_out (if successful then ''Login successful'' else ''Login failed'') s1))
      | _ \<Rightarrow> (Inr (), msg_out ''Invalid syntax, expected: login: <username> <password>'' s))"

text \<open>\<open>_cmd__save\<close>, lines 427 to 429.\<close>

definition cmd_save :: "string list \<Rightarrow> state \<Rightarrow> unit result" where
  "cmd_save args s = bind (write_config s) (\<lambda>_ s1. (Inr (), msg_out ''Configuration saved'' s1))"

text \<open>\<open>_cmd__track\<close> and \<open>_cmd__stoptrack\<close>, lines 431 to 439.\<close>

definition cmd_track :: "'n env \<Rightarrow> string list \<Rightarrow> state \<Rightarrow> unit result" where
  "cmd_track env args s =
     bind (for_each (add_tracker env) args s)
       (\<lambda>_ s1. (Inr (), msg_out ''Added tracked market(s)'' s1))"

definition cmd_stoptrack :: "string list \<Rightarrow> state \<Rightarrow> unit result" where
  "cmd_stoptrack args s =
     bind (for_each del_tracker args s)
       (\<lambda>_ s1. (Inr (), msg_out ''Removed tracked market(s)'' s1))"

text \<open>
  \<open>_cmd__search\<close>, lines 441 to 446. The answer is the list of the pairs
  \<open>instrumentName\<close>, \<open>epic\<close>.
\<close>

definition cmd_search :: "'n env \<Rightarrow> string list \<Rightarrow> state \<Rightarrow> unit result" where
  "cmd_search env args s =
     (case client s of
        None \<Rightarrow> (Inl (AttributeError ''search_market''), s)
      | Some _ \<Rightarrow>
          (case args of
             [] \<Rightarrow> (Inl IndexError, s)
           | term # _ \<Rightarrow>
               (case search_market env term of
                  Inl e \<Rightarrow> (Inl e, s)
                | Inr markets \<Rightarrow>
                    (Inr (), msg_out (''Found epics: '' @
                       join '', '' (map (\<lambda>(n, epic). n @ '': '' @ epic) markets)) s))))"

text \<open>\<open>_cmd__buy\<close>, lines 448 to 458: \<open>amount\<close> is its \<open>size\<close>; here
  \<open>BadRequestError\<close> is the one caught.\<close>

definition cmd_buy :: "'n env \<Rightarrow> string list \<Rightarrow> state \<Rightarrow> unit result" where
  "cmd_buy env args s =
     (case args of
        [amount, epic] \<Rightarrow>
          (case currency (config s) of
             None \<Rightarrow> (Inl (KeyError ''currency''), s)
           | Some cur \<Rightarrow>
               (case client s of
                  None \<Rightarrow> (Inl (AttributeError ''get_market''), s)
                | Some _ \<Rightarrow>
                    (case get_market env epic of
                       Inl e \<Rightarrow>
                         (if e = BadRequestError
                          then (Inr (), msg_out (''Unable to find market: '' @ epic) s)
                          else (Inl e, s))
                     | Inr _ \<Rightarrow>
                         (case add_position env epic amount cur of
                            Inl e \<Rightarrow> (Inl e, s)
                          | Inr _ \<Rightarrow>
                              (Inr (), msg_out (''Submitted position on '' @ epic @ '' @ '' @
                                 amount @ '' '' @ cur) s)))))
      | _ \<Rightarrow> (Inl ValueError, s))"

text \<open>
  \<open>_cmd__alias\<close>, lines 460 to 462. The assignment evaluates its right-hand side,
  then \<open>self.config['alias']\<close>, then \<open>args[0]\<close>.
\<close>

definition cmd_alias :: "string list \<Rightarrow> state \<Rightarrow> unit result" where
  "cmd_alias args s =
     (case aliases (config s) of
        None \<Rightarrow> (Inl (KeyError ''alias''), s)
      | Some al \<Rightarrow>
          (case args of
             [] \<Rightarrow> (Inl IndexError, s)
           | a # rest \<Rightarrow>
               (Inr (), msg_out (''Added alias: '' @ a @ '' = '' @ join '' '' rest)
                  (s\<lparr>config := (config s)\<lparr>aliases :=
                        Some (AList.update a (join '' '' rest) al)\<rparr>\<rparr>))))"

text \<open>
  \<open>getattr(self, f'_cmd__{name}')\<close>: the attributes of an \<open>IGCLI\<close> object whose
  name starts with \<open>_cmd__\<close> are these nine methods.
\<close>

definition command :: "'n env \<Rightarrow> string \<Rightarrow> (string list \<Rightarrow> state \<Rightarrow> unit result) option" where
  "command env cmd =
     (if cmd = ''update'' then Some (cmd_update env)
      else if cmd = ''api'' then Some cmd_api
      else if cmd = ''login'' then Some (cmd_login env)
      else if cmd = ''save'' then Some cmd_save
      else if cmd = ''track'' then Some (cmd_track env)
      else if cmd = ''stoptrack'' then Some cmd_stoptrack
      else if cmd = ''search'' then Some (cmd_search env)
      else if cmd = ''buy'' then Some (cmd_buy env)
      else if cmd = ''alias'' then Some cmd_alias
      else None)"

section \<open>The interpreter\<close>

text \<open>
  The loop of lines 280 to 285. \<open>self.config['alias']\<close> is read in the body, once for
  each token; the arguments are the tokens still to come and \<open>a_args\<close>.
\<close>

fun replace_aliases ::
  "'l config \<Rightarrow> string list \<Rightarrow> string list \<Rightarrow> error + string list" where
  "replace_aliases c [] a_args = Inr a_args"
| "replace_aliases c (arg # args) a_args =
     (case aliases c of
        None \<Rightarrow> Inl (KeyError ''alias'')
      | Some al \<Rightarrow>
          (case map_of al arg of
             Some expansion \<Rightarrow> replace_aliases c args (a_args @ split_sep CHR '' '' expansion)
           | None \<Rightarrow> replace_aliases c args (a_args @ [arg])))"

text \<open>
  \<open>parse\<close>, lines 275 to 296. \<open>args[0]\<close> is evaluated inside the \<open>try\<close>, which
  catches \<open>AttributeError\<close> only; the command runs outside it.
\<close>

definition parse :: "'n env \<Rightarrow> string \<Rightarrow> state \<Rightarrow> unit result" where
  "parse env text s =
     (let s1 = log_line (''Input: '' @ text) s
      in case replace_aliases (config s1) (split text) [] of
           Inl e \<Rightarrow> (Inl e, s1)
         | Inr args \<Rightarrow>
             (case args of
                [] \<Rightarrow> (Inl IndexError, s1)
              | cmd # rest \<Rightarrow>
                  (case command env cmd of
                     None \<Rightarrow> (Inr (), msg_out (''Unrecognised command: '' @ cmd) s1)
                   | Some handler \<Rightarrow> handler rest s1)))"

section \<open>The threads\<close>

text \<open>The bound method a timer was made with.\<close>

definition run_func :: "'n env \<Rightarrow> func \<Rightarrow> state \<Rightarrow> unit result" where
  "run_func env f =
     (case f of
        Update_status \<Rightarrow> update_status env
      | Update_positions \<Rightarrow> update_positions env
      | Update_activity \<Rightarrow> update_activity env
      | Update_orders \<Rightarrow> update_orders env
      | Update_trackers \<Rightarrow> update_trackers env)"

definition is_set :: "bool list \<Rightarrow> nat \<Rightarrow> bool" where
  "is_set evs e \<longleftrightarrow> e < length evs \<and> evs ! e"

text \<open>
  One move of the thread of timer \<open>i\<close> through \<open>RepeatTimer.run\<close>, lines 56 to 60:
  \<^verbatim>\<open>while not stop_threads.wait(self.interval): self.func()\<close>.
  At the head of the loop the thread reads the global \<open>stop_threads\<close>, which has no
  \<open>wait\<close> when it is \<open>None\<close>, and waits on the event it found. A thread that is
  waiting moves when its event is set, and \<open>wait\<close> returns \<open>True\<close>, or when the
  interval is over, and \<open>wait\<close> returns \<open>False\<close>: then it is inside
  \<open>self.func()\<close>. The effect of the call on the state is made when the call ends,
  with the answers the environment gives at that time; an exception of the call
  leaves \<open>run\<close>, which has no handler, and ends the thread.
\<close>

definition thread_step :: "'n env \<Rightarrow> nat \<Rightarrow> state \<Rightarrow> state" where
  "thread_step env i s =
     (if i < length (timers s) then
        (case pc (timers s ! i) of
           Created \<Rightarrow> s
         | Looping \<Rightarrow>
             (case stop_event s of
                None \<Rightarrow> set_pc i (Crashed (AttributeError ''wait'')) s
              | Some e \<Rightarrow> set_pc i (Waiting e) s)
         | Waiting e \<Rightarrow> (if is_set (events s) e then set_pc i Finished s else set_pc i Calling s)
         | Calling \<Rightarrow>
             (case run_func env (func (timers s ! i)) s of
                (Inl err, s1) \<Rightarrow> set_pc i (Crashed err) s1
              | (Inr _, s1) \<Rightarrow> set_pc i Looping s1)
         | Finished \<Rightarrow> s
         | Crashed err \<Rightarrow> s)
      else s)"

text \<open>
  A run of the program is a list of moves, each with the environment of its time: a
  move of one thread, or a call made on the main thread. An exception of a call on
  the main thread leaves the state as the call left it.
\<close>

datatype move =
    Thread nat
  | Call_parse string
  | Call_logout
  | Call_start_threads
  | Call_stop_threads
  | Call_restart_threads
  | Key_exit

definition step :: "'n env \<Rightarrow> move \<Rightarrow> state \<Rightarrow> state" where
  "step env m s =
     (case m of
        Thread i \<Rightarrow> thread_step env i s
      | Call_parse text \<Rightarrow> snd (parse env text s)
      | Call_logout \<Rightarrow> snd (logout s)
      | Call_start_threads \<Rightarrow> snd (start_threads s)
      | Call_stop_threads \<Rightarrow> snd (stop_threads s)
      | Call_restart_threads \<Rightarrow> snd (restart_threads s)
      | Key_exit \<Rightarrow> snd (exit_ctrl_q s))"

fun exec :: "('n env \<times> move) list \<Rightarrow> state \<Rightarrow> state" where
  "exec [] s = s"
| "exec ((env, m) # ms) s = exec ms (step env m s)"

text \<open>
  The state that \<open>__init__\<close> (lines 72 to 148) leaves when the three variables of
  \<open>autologin\<close> are not all set, with the module global of line 35 and the class
  attribute of lines 66 to 70 as the module made them: the status timer is made, the
  status bar is filled, and the status timer is started last.
\<close>

definition init :: "'n env \<Rightarrow> string \<Rightarrow> (string \<times> store) list \<Rightarrow> state" where
  "init env file_name fs =
     (let s0 = \<lparr>authd = False, ident = None, config = empty_config,
                default_tracked = [], client = None,
                config_file = file_name, files = fs,
                positions_thread = None, activity_thread = None, orders_thread = None,
                trackers_thread = None, status_thread = 0,
                stop_event = Some 0, events = [False], timers = [],
                positions_field = [], activity_field = [], orders_field = [],
                trackers_field = [], msg_field = [], status_field = [], logger = []\<rparr>;
          (t, s1) = RepeatTimer Update_status 1 s0;
          s2 = s1\<lparr>status_thread := t\<rparr>;
          s3 = s2\<lparr>status_field := status env s2\<rparr>
      in start (status_thread s3) s3)"

section \<open>Auxiliary definitions of the statements\<close>

text \<open>What one pass of the loop of \<open>parse\<close> appends for one token.\<close>

definition expand_token :: "(string \<times> string) list \<Rightarrow> string \<Rightarrow> string list" where
  "expand_token al arg =
     (case map_of al arg of Some expansion \<Rightarrow> split_sep CHR '' '' expansion | None \<Rightarrow> [arg])"

text \<open>
  The same in the words of the specification, where the expansion of an alias is
  tokenized on whitespace, as the input line is.
\<close>

definition spec_expand_token :: "(string \<times> string) list \<Rightarrow> string \<Rightarrow> string list" where
  "spec_expand_token al arg =
     (case map_of al arg of Some expansion \<Rightarrow> split expansion | None \<Rightarrow> [arg])"

text \<open>
  An environment for the examples: the client accepts every login and knows every
  market but \<open>badepic\<close>, for which \<open>get_market\<close> raises \<open>NotFoundError\<close>; numbers
  are integers.
\<close>

definition example_market :: "string \<Rightarrow> int market" where
  "example_market epic =
     \<lparr>instrument_name = epic, low = None, high = Some 7, bid = Some 0, offer = Some 31\<rparr>"

definition example_env :: "int env" where
  "example_env =
     \<lparr>utcnow = ''Tue 03 Nov 2026 | 12:00:00'',
      login_answer = (\<lambda>_ _. Inr True),
      get_market = (\<lambda>epic. if epic = ''badepic'' then Inl NotFoundError else Inr ()),
      get_markets = (\<lambda>epics. Inr (map example_market epics)),
      get_positions = Inr [],
      get_orders = Inr [],
      get_activity = Inr [],
      search_market = (\<lambda>_. Inr []),
      add_position = (\<lambda>_ _ _. Inr ()),
      num_str = str_int,
      num_zero = (\<lambda>n. n = 0)\<rparr>"

text \<open>The same environment at a time when the client fails to give the positions.\<close>

definition failing_env :: "int env" where
  "failing_env = example_env\<lparr>get_positions := Inl (ClientError ''timeout'')\<rparr>"

text \<open>
  The program just started, beside an empty \<open>config.yml\<close>, and the session after
  \<open>set_api\<close> and a successful \<open>login\<close>.
\<close>

definition fresh :: state where
  "fresh = init example_env ''config.yml'' [(''config.yml'', [])]"

definition session :: state where
  "session = snd (login example_env ''me'' ''secret'' (set_api ''key'' fresh))"

text \<open>The session with two aliases, the first of which expands to the name of the second.\<close>

definition alias_session :: state where
  "alias_session =
     session\<lparr>config := (config session)\<lparr>aliases := Some [(''a'', ''b c''), (''b'', ''update'')]\<rparr>\<rparr>"



text \<open>
  The example environment with a client that rejects \<open>badepic\<close> with
  \<open>BadRequestError\<close>, the exception that \<open>_cmd__buy\<close> expects of \<open>get_market\<close>.
\<close>

definition bad_request_env :: "int env" where
  "bad_request_env =
     example_env\<lparr>get_market :=
       (\<lambda>epic. if epic = ''badepic'' then Inl BadRequestError else Inr ())\<rparr>"




text \<open>
  Two moves that take the positions timer of the session into its action: it reads the
  global and waits, and the interval ends.
\<close>

definition into_tick :: "(int env \<times> move) list" where
  "into_tick = [(example_env, Thread 1), (example_env, Thread 1)]"

text \<open>
  A run in which \<open>restart_threads\<close> is called while the positions timer is inside its
  action; the action then returns and the timer goes back to the head of its loop and
  waits.
\<close>

definition restart_race :: "(int env \<times> move) list" where
  "restart_race =
     into_tick @
     [(example_env, Call_restart_threads), (example_env, Thread 1), (example_env, Thread 1)]"

text \<open>
  A run in which \<open>stop_threads\<close> and then \<open>start_threads\<close> are called while the
  positions timer is inside its action, and its continuation in which the old
  positions timer, 1, and the new one, 5, each go on to their next tick.
\<close>

definition stop_start_run :: "(int env \<times> move) list" where
  "stop_start_run =
     into_tick @ [(example_env, Call_stop_threads), (example_env, Call_start_threads)]"

definition two_refreshers_run :: "(int env \<times> move) list" where
  "two_refreshers_run =
     stop_start_run @
     [(example_env, Thread 1), (example_env, Thread 1), (example_env, Thread 1),
      (example_env, Thread 5), (example_env, Thread 5)]"

text \<open>The timers of \<open>s\<close> are still there in \<open>s'\<close>, unchanged, before any new ones.\<close>

definition keeps_timers :: "state \<Rightarrow> state \<Rightarrow> bool" where
  "keeps_timers s s' \<longleftrightarrow> (\<exists>new. timers s' = timers s @ new)"

section \<open>The interpreter: tokens and aliases\<close>

lemma split_from_Nil_iff:
  "split_from cur line = [] \<longleftrightarrow> cur = [] \<and> (\<forall>ch\<in>set line. isspace ch)"
  by (induction line arbitrary: cur) auto

lemma split_Nil_iff: "split line = [] \<longleftrightarrow> (\<forall>ch\<in>set line. isspace ch)"
  by (simp add: split_def split_from_Nil_iff)

lemma split_sep_from_not_Nil: "split_sep_from sep cur line \<noteq> []"
  by (induction line arbitrary: cur) auto

lemma split_sep_not_Nil: "split_sep sep line \<noteq> []"
  by (simp add: split_sep_def split_sep_from_not_Nil)

lemma expand_token_not_Nil: "expand_token al arg \<noteq> []"
  by (simp add: expand_token_def split_sep_not_Nil split: option.splits)

text \<open>
  The loop as one pass: with an alias dictionary, every token of the line is looked
  up once and what it gives is appended; what is appended is not looked up.
\<close>

lemma replace_aliases_concat:
  "aliases c = Some al \<Longrightarrow>
   replace_aliases c args a_args = Inr (a_args @ concat (map (expand_token al) args))"
  by (induction args arbitrary: a_args) (auto simp: expand_token_def split: option.splits)

text \<open>Without the key \<open>'alias'\<close> the first token raises.\<close>

lemma replace_aliases_no_alias:
  "aliases c = None \<Longrightarrow>
   replace_aliases c args a_args = (if args = [] then Inr a_args else Inl (KeyError ''alias''))"
  by (cases args) auto

text \<open>
  No tokens are left after the expansion exactly when the line had none: an
  expansion is never empty.
\<close>

lemma replace_aliases_Nil_iff: "replace_aliases c args [] = Inr [] \<longleftrightarrow> args = []"
proof (cases "aliases c")
  case None
  then show ?thesis by (simp add: replace_aliases_no_alias)
next
  case (Some al)
  then show ?thesis
    by (cases args)
      (simp_all add: replace_aliases_concat expand_token_not_Nil del: replace_aliases.simps)
qed

lemma no_tokens_iff_blank:
  "replace_aliases c (split line) [] = Inr [] \<longleftrightarrow> (\<forall>ch\<in>set line. isspace ch)"
  by (simp add: replace_aliases_Nil_iff split_Nil_iff)

text \<open>
  C10. A line that yields no tokens after splitting and alias expansion, which by
  \<open>no_tokens_iff_blank\<close> is a line of whitespace only, the empty line among them:
  \<open>parse\<close> raises \<open>IndexError\<close> at \<open>args[0]\<close>. Nothing catches it, no message is
  written, and the state is changed by the debug line of the logger only. This holds
  for every configuration, the empty one included.
\<close>

theorem parse_blank_IndexError:
  assumes "\<forall>ch\<in>set line. isspace ch"
  shows "replace_aliases (config s) (split line) [] = Inr [] \<and>
         parse env line s = (Inl IndexError, log_line (''Input: '' @ line) s)"
proof -
  from assms have "split line = []" by (simp add: split_Nil_iff)
  then show ?thesis by (simp add: parse_def log_line_def)
qed

theorem parse_blank_IndexError_witness:
  "isspace CHR '' '' \<and>
   replace_aliases (config fresh) (split ''  '') [] = Inr [] \<and>
   parse example_env ''  '' fresh = (Inl IndexError, log_line ''Input:   '' fresh)"
  using parse_blank_IndexError [of "''  ''" fresh example_env] by (simp add: isspace_def)

lemma split_a: "split ''a'' = [''a'']"
  by (simp add: split_def isspace_def)

lemma split_sep_b_c: "split_sep CHR '' '' ''b c'' = [''b'', ''c'']"
  by (simp add: split_sep_def)

lemma command_b: "command env ''b'' = None"
  by (simp add: command_def)

text \<open>
  C5, as the code has it. Alias expansion in \<open>parse\<close> is one pass and not recursive:
  each token of the line that is a key of the alias dictionary is replaced in place by
  its expansion, split at every single space as \<open>split(' ')\<close> does, and the tokens
  that an expansion produces are not looked up again. In particular, with the alias
  \<open>a\<close> for \<open>b c\<close> the line \<open>a\<close> gives the tokens \<open>b\<close> and \<open>c\<close>,
  whatever else the dictionary holds, \<open>b\<close> included, and the handler is looked up
  for \<open>b\<close>: there is no command \<open>b\<close>, and \<open>parse\<close> reports that.
\<close>

theorem alias_expansion_single_pass:
  assumes "aliases (config s) = Some al"
  shows "replace_aliases (config s) args [] = Inr (concat (map (expand_token al) args)) \<and>
         (map_of al ''a'' = Some ''b c'' \<longrightarrow>
            replace_aliases (config s) (split ''a'') [] = Inr [''b'', ''c''] \<and>
            parse env ''a'' s =
              (Inr (), msg_out ''Unrecognised command: b'' (log_line ''Input: a'' s)))"
proof -
  have all: "replace_aliases (config s) xs [] = Inr (concat (map (expand_token al) xs))" for xs
    using assms by (simp add: replace_aliases_concat)
  have one: "replace_aliases (config s) (split ''a'') [] = Inr [''b'', ''c'']"
    if "map_of al ''a'' = Some ''b c''"
    using that by (simp add: all split_a expand_token_def split_sep_b_c del: replace_aliases.simps)
  have "parse env ''a'' s = (Inr (), msg_out ''Unrecognised command: b'' (log_line ''Input: a'' s))"
    if "map_of al ''a'' = Some ''b c''"
    using one [OF that] by (simp add: parse_def log_line_def command_b del: replace_aliases.simps)
  with all one show ?thesis by blast
qed

theorem alias_expansion_single_pass_witness:
  "aliases (config alias_session) = Some [(''a'', ''b c''), (''b'', ''update'')] \<and>
   replace_aliases (config alias_session) (split ''a'') [] = Inr [''b'', ''c''] \<and>
   parse example_env ''a'' alias_session =
     (Inr (), msg_out ''Unrecognised command: b'' (log_line ''Input: a'' alias_session))"
  using alias_expansion_single_pass
    [of alias_session "[(''a'', ''b c''), (''b'', ''update'')]" "[]" example_env]
  by (simp add: alias_session_def del: replace_aliases.simps)

text \<open>
  C5 as the specification words it, with the expansion tokenized on whitespace, fails
  for the alias that the command \<open>alias a\<close> makes, whose expansion is the empty
  string: \<open>''.split(' ')\<close> is one empty token, where tokenizing on whitespace gives
  none.
\<close>

theorem alias_expansion_whitespace_counterexample:
  "replace_aliases (config_default\<lparr>aliases := Some [(''a'', '''')]\<rparr>) (split ''a'') [] = Inr ['''']
   \<and> replace_aliases (config_default\<lparr>aliases := Some [(''a'', '''')]\<rparr>) (split ''a'') [] \<noteq>
      Inr (concat (map (spec_expand_token [(''a'', '''')]) (split ''a'')))"
  by (simp add: spec_expand_token_def split_def split_sep_def isspace_def)

section \<open>Commands of a session that is logged out\<close>

text \<open>
  Under the guard, \<open>_cmd__update\<close> called while logged out writes the message of the
  guard and changes nothing else.
\<close>

lemma cmd_update_guard:
  "\<not> authd s \<Longrightarrow> cmd_update env args s = (Inr (), msg_out auth_required s)"
  by (simp add: cmd_update_def req_auth_def)

text \<open>
  C3 at the program just started, which is logged out and has the empty configuration:
  the line \<open>update\<close> does not reach \<open>_cmd__update\<close> and its guard. The alias loop
  of \<open>parse\<close> reads \<open>self.config['alias']\<close> for the first token and raises
  \<open>KeyError\<close>, which nothing catches; no message is written.
\<close>

theorem logged_out_update_KeyError:
  "parse env ''update'' (init env file_name fs) =
     (Inl (KeyError ''alias''), log_line ''Input: update'' (init env file_name fs)) \<and>
   \<not> authd (init env file_name fs) \<and>
   msg_field (snd (parse env ''update'' (init env file_name fs))) = []"
  by (simp add: parse_def log_line_def init_def RepeatTimer_def start_def set_pc_def
      empty_config_def split_def isspace_def)

section \<open>The example session\<close>

lemma str_nat_digits: "str_nat 0 = ''0''" "str_nat 5 = ''5''"
  by code_simp+

lemma session_value:
  "session =
     \<lparr>authd = True, ident = Some ''me'', config = config_default, default_tracked = [],
      client = Some ''key'', config_file = ''config.yml'', files = [(''config.yml'', [])],
      positions_thread = Some 1, activity_thread = Some 2, orders_thread = Some 3,
      trackers_thread = Some 4, status_thread = 0, stop_event = Some 0, events = [False],
      timers =
        [\<lparr>interval = 1, func = Update_status, pc = Looping\<rparr>,
         \<lparr>interval = 5, func = Update_positions, pc = Looping\<rparr>,
         \<lparr>interval = 5, func = Update_activity, pc = Looping\<rparr>,
         \<lparr>interval = 5, func = Update_orders, pc = Looping\<rparr>,
         \<lparr>interval = 5, func = Update_trackers, pc = Looping\<rparr>],
      positions_field = [], activity_field = [], orders_field = [], trackers_field = [],
      msg_field =
        newline @ ''Loading me configuration...'' @ newline @ ''... Refresh rate: 5 s'' @
        newline @ ''... Currency: USD'' @ newline @ ''... Added 0 trackers'',
      status_field = ''Tue 03 Nov 2026 | 12:00:00 || Status: Offline |'', logger = []\<rparr>"
  by (simp add: session_def fresh_def login_def set_api_def init_def example_env_def
      load_config_def load_config_body_def req_auth_def RepeatTimer_def start_def set_pc_def
      bind_def msg_out_def load_report_def tracked_list_def deref_def config_default_def
      start_threads_def start_threads_body_def status_def str_opt_def str_int_def
      str_nat_digits Let_def)



text \<open>Runs from the example session.\<close>

lemma exec_append: "exec (ms @ ms') s = exec ms' (exec ms s)"
  by (induction ms arbitrary: s) auto

lemma into_tick_state:
  "exec into_tick session =
     session\<lparr>timers := (timers session)
       [1 := \<lparr>interval = 5, func = Update_positions, pc = Calling\<rparr>]\<rparr>"
  by (simp add: session_value into_tick_def step_def thread_step_def set_pc_def is_set_def)

section \<open>Tracking a batch of epics\<close>

lemma tracked_list_store_tracked:
  "tracked_list s = Some tr \<Longrightarrow> tracked_list (store_tracked xs s) = Some xs"
  by (cases "tracked (config s)")
    (auto simp: tracked_list_def store_tracked_def deref_def split: list_ref.splits)

lemma tracked_list_frame [simp]:
  "tracked_list (s\<lparr>logger := l\<rparr>) = tracked_list s"
  "tracked_list (s\<lparr>msg_field := m\<rparr>) = tracked_list s"
  "tracked_list (s\<lparr>trackers_field := t\<rparr>) = tracked_list s"
  by (simp_all add: tracked_list_def)

lemma store_tracked_frame:
  "authd (store_tracked xs s) = authd s \<and> client (store_tracked xs s) = client s \<and>
   msg_field (store_tracked xs s) = msg_field s"
  by (simp add: store_tracked_def split: option.splits list_ref.splits)

lemma add_tracker_accepted:
  "authd s \<Longrightarrow> client s = Some k \<Longrightarrow> tracked_list s = Some tr \<Longrightarrow>
   get_market env e = Inr () \<Longrightarrow>
   add_tracker env e s = (Inr (), store_tracked (tr @ [e]) s)"
  by (simp add: add_tracker_def add_tracker_body_def req_auth_def)

lemma add_tracker_rejected:
  "authd s \<Longrightarrow> client s = Some k \<Longrightarrow> get_market env e = Inl NotFoundError \<Longrightarrow>
   add_tracker env e s = (Inr (), msg_out (''Unable to find market: '' @ e) s)"
  by (simp add: add_tracker_def add_tracker_body_def req_auth_def)

text \<open>
  An exception of \<open>get_market\<close> other than \<open>NotFoundError\<close> is not caught: it leaves
  \<open>add_tracker\<close> and the loop of \<open>_cmd__track\<close>, and the epics after it are not
  looked at.
\<close>

lemma track_other_error_aborts:
  "authd s \<Longrightarrow> client s = Some k \<Longrightarrow> get_market env e = Inl err \<Longrightarrow> err \<noteq> NotFoundError \<Longrightarrow>
   cmd_track env (e # rest) s = (Inl err, s)"
  by (simp add: cmd_track_def bind_def add_tracker_def add_tracker_body_def req_auth_def)

text \<open>
  The loop of \<open>_cmd__track\<close> over epics that the client accepts or rejects with
  \<open>NotFoundError\<close>, by induction on the epics, for any state: the accepted epics
  are appended in their order, each rejected one gets its message, and the loop
  reaches the end.
\<close>

lemma for_each_add_tracker:
  assumes "\<forall>e\<in>set epics. get_market env e = Inr () \<or> get_market env e = Inl NotFoundError"
  shows "authd s \<Longrightarrow> client s = Some k \<Longrightarrow> tracked_list s = Some tr \<Longrightarrow>
    fst (for_each (add_tracker env) epics s) = Inr () \<and>
    authd (snd (for_each (add_tracker env) epics s)) \<and>
    client (snd (for_each (add_tracker env) epics s)) = Some k \<and>
    tracked_list (snd (for_each (add_tracker env) epics s)) =
      Some (tr @ filter (\<lambda>e. get_market env e = Inr ()) epics) \<and>
    msg_field (snd (for_each (add_tracker env) epics s)) =
      msg_field s @
      concat (map (\<lambda>e. newline @ ''Unable to find market: '' @ e)
        (filter (\<lambda>e. get_market env e = Inl NotFoundError) epics))"
  using assms
proof (induction epics arbitrary: s tr)
  case Nil
  then show ?case by simp
next
  case (Cons e epics)
  from Cons.prems(4) consider
    "get_market env e = Inr ()" | "get_market env e = Inl NotFoundError"
    by auto
  then show ?case
  proof cases
    case 1
    let ?s1 = "store_tracked (tr @ [e]) s"
    have first: "add_tracker env e s = (Inr (), ?s1)"
      using Cons.prems 1 by (simp add: add_tracker_accepted)
    have s1: "authd ?s1" "client ?s1 = Some k" "tracked_list ?s1 = Some (tr @ [e])"
      "msg_field ?s1 = msg_field s"
      using Cons.prems(1-3) by (simp_all add: store_tracked_frame tracked_list_store_tracked)
    from Cons.IH [OF s1(1-3)] Cons.prems(4) s1(4) 1 show ?thesis
      by (simp add: first bind_def)
  next
    case 2
    let ?s1 = "msg_out (''Unable to find market: '' @ e) s"
    have first: "add_tracker env e s = (Inr (), ?s1)"
      using Cons.prems 2 by (simp add: add_tracker_rejected)
    have s1: "authd ?s1" "client ?s1 = Some k" "tracked_list ?s1 = Some tr"
      "msg_field ?s1 = msg_field s @ newline @ ''Unable to find market: '' @ e"
      using Cons.prems(1-3) by (simp_all add: msg_out_def)
    from Cons.IH [OF s1(1-3)] Cons.prems(4) s1(4) 2 show ?thesis
      by (simp add: first bind_def)
  qed
qed

lemma track_not_found_batch:
  assumes "authd s" and "client s = Some k" and "tracked_list s = Some tr"
    and "\<forall>e\<in>set epics. get_market env e = Inr () \<or> get_market env e = Inl NotFoundError"
  shows "fst (cmd_track env epics s) = Inr () \<and>
    tracked_list (snd (cmd_track env epics s)) =
      Some (tr @ filter (\<lambda>e. get_market env e = Inr ()) epics) \<and>
    msg_field (snd (cmd_track env epics s)) =
      msg_field s @
      concat (map (\<lambda>e. newline @ ''Unable to find market: '' @ e)
        (filter (\<lambda>e. get_market env e = Inl NotFoundError) epics)) @
      newline @ ''Added tracked market(s)''"
proof -
  obtain r s1 where run: "for_each (add_tracker env) epics s = (r, s1)"
    by (cases "for_each (add_tracker env) epics s")
  from for_each_add_tracker [OF assms(4) assms(1-3)] run
  show ?thesis
    by (simp add: cmd_track_def bind_def msg_out_def)
qed

text \<open>
  C6 at the example session, for the batch \<open>epic1 badepic epic2\<close> when the client
  rejects \<open>badepic\<close> with \<open>BadRequestError\<close>. \<open>epic1\<close> is added; at
  \<open>badepic\<close> the exception leaves \<open>add_tracker\<close>, which catches
  \<open>NotFoundError\<close> only, and ends the command: no message is written and
  \<open>epic2\<close> is never put to the client. For the same rejection \<open>_cmd__buy\<close>
  writes \<open>Unable to find market: badepic\<close> and returns.
\<close>

theorem track_bad_request_aborts:
  "cmd_track bad_request_env [''epic1'', ''badepic'', ''epic2''] session =
     (Inl BadRequestError, session\<lparr>default_tracked := [''epic1'']\<rparr>) \<and>
   tracked_list (snd (cmd_track bad_request_env [''epic1'', ''badepic'', ''epic2''] session)) =
     Some [''epic1''] \<and>
   msg_field (snd (cmd_track bad_request_env [''epic1'', ''badepic'', ''epic2''] session)) =
     msg_field session \<and>
   cmd_buy bad_request_env [''1'', ''badepic''] session =
     (Inr (),
      session\<lparr>msg_field := msg_field session @ [CHR 0x0A] @ ''Unable to find market: badepic''\<rparr>)"
  by (simp add: session_value cmd_track_def bind_def add_tracker_def add_tracker_body_def
      req_auth_def bad_request_env_def example_env_def tracked_list_def store_tracked_def
      deref_def config_default_def cmd_buy_def msg_out_def newline_def)

section \<open>The trackers pane\<close>









section \<open>Loading the configuration\<close>

text \<open>
  With a store that is not empty and has no entry for the account, the configuration
  is left empty and the report of the loaded values raises.
\<close>

lemma load_config_no_entry:
  assumes "authd s" and "map_of (files s) filename = Some loaded" and "loaded \<noteq> []"
    and "map_of loaded (ident s) = None"
  shows "load_config filename s =
     (Inl (KeyError ''refresh''),
      (msg_out (''Loading '' @ str_opt (ident s) @ '' configuration...'') s)
        \<lparr>config := empty_config\<rparr>)"
  using assms
  by (simp add: load_config_def load_config_body_def req_auth_def msg_out_def load_report_def
      truthy_def empty_config_def from_yaml_def Let_def)





section \<open>Starting the refresh threads\<close>

text \<open>
  The guard of \<open>start_threads\<close>. In a session that is logged in, a call while the
  thread fields are set makes no timer: it logs the error \<open>Threads already running!\<close>
  and changes nothing else. After any \<open>start_threads\<close> of a session whose
  configuration has a refresh interval the fields are set, so that a second call is
  this logged error.
\<close>

lemma start_threads_guard:
  assumes "authd s"
  shows "(positions_thread s \<noteq> None \<and> trackers_thread s \<noteq> None \<longrightarrow>
            start_threads s = (Inr (), log_line ''Threads already running!'' s)) \<and>
         (refresh (config s) \<noteq> None \<longrightarrow>
            start_threads (snd (start_threads s)) =
              (Inr (), log_line ''Threads already running!'' (snd (start_threads s))) \<and>
            timers (snd (start_threads (snd (start_threads s)))) =
              timers (snd (start_threads s)))"
proof -
  have guard: "start_threads t = (Inr (), log_line ''Threads already running!'' t)"
    if "authd t" "positions_thread t \<noteq> None" "trackers_thread t \<noteq> None" for t
    using that by (simp add: start_threads_def start_threads_body_def req_auth_def)
  have after: "authd (snd (start_threads s)) \<and>
      positions_thread (snd (start_threads s)) \<noteq> None \<and>
      trackers_thread (snd (start_threads s)) \<noteq> None"
    if "refresh (config s) \<noteq> None"
    using that assms
    by (auto simp: start_threads_def start_threads_body_def req_auth_def log_line_def
        RepeatTimer_def start_def set_pc_def Let_def)
  show ?thesis
    using guard [OF assms] guard [of "snd (start_threads s)"] after
    by (auto simp: log_line_def)
qed

lemma stop_start_state:
  "exec stop_start_run session =
     session\<lparr>positions_thread := Some 5, activity_thread := Some 6, orders_thread := Some 7,
       trackers_thread := Some 8, stop_event := Some 1, events := [True, False],
       timers :=
        [\<lparr>interval = 1, func = Update_status, pc = Looping\<rparr>,
         \<lparr>interval = 5, func = Update_positions, pc = Calling\<rparr>,
         \<lparr>interval = 5, func = Update_activity, pc = Looping\<rparr>,
         \<lparr>interval = 5, func = Update_orders, pc = Looping\<rparr>,
         \<lparr>interval = 5, func = Update_trackers, pc = Looping\<rparr>,
         \<lparr>interval = 5, func = Update_positions, pc = Looping\<rparr>,
         \<lparr>interval = 5, func = Update_activity, pc = Looping\<rparr>,
         \<lparr>interval = 5, func = Update_orders, pc = Looping\<rparr>,
         \<lparr>interval = 5, func = Update_trackers, pc = Looping\<rparr>]\<rparr>"
  unfolding stop_start_run_def exec_append into_tick_state
  by (simp add: session_value step_def stop_threads_def stop_threads_body_def
      start_threads_def start_threads_body_def req_auth_def RepeatTimer_def start_def
      set_pc_def Let_def config_default_def)

lemma two_refreshers_state:
  "exec two_refreshers_run session =
     (exec stop_start_run session)\<lparr>
       timers :=
        [\<lparr>interval = 1, func = Update_status, pc = Looping\<rparr>,
         \<lparr>interval = 5, func = Update_positions, pc = Calling\<rparr>,
         \<lparr>interval = 5, func = Update_activity, pc = Looping\<rparr>,
         \<lparr>interval = 5, func = Update_orders, pc = Looping\<rparr>,
         \<lparr>interval = 5, func = Update_trackers, pc = Looping\<rparr>,
         \<lparr>interval = 5, func = Update_positions, pc = Calling\<rparr>,
         \<lparr>interval = 5, func = Update_activity, pc = Looping\<rparr>,
         \<lparr>interval = 5, func = Update_orders, pc = Looping\<rparr>,
         \<lparr>interval = 5, func = Update_trackers, pc = Looping\<rparr>],
       positions_field := header '' POSITIONS '',
       logger := [''Updating positions...'']\<rparr>"
  unfolding two_refreshers_run_def exec_append stop_start_state
  by (simp add: session_value step_def thread_step_def set_pc_def is_set_def run_func_def
      update_positions_def update_positions_body_def req_auth_def log_line_def
      example_env_def)

text \<open>
  C7 at the example session. The positions timer of the session, timer 1, is inside its
  action when \<open>stop_threads\<close> and then \<open>start_threads\<close> are called. The guard of
  \<open>start_threads\<close> looks at the thread fields, which \<open>stop_threads\<close> has
  cleared, and not at the threads: with timer 1 still running, four new timers, 5 to
  8, are made and started, and no error is logged. Timer 1 then ends its action, reads
  the global, which is the new event, and goes on; in the end the old and the new
  positions timers are inside their actions at the same time.
\<close>

theorem start_while_running_duplicates:
  "length (timers session) = 5 \<and>
   pc (timers (exec stop_start_run session) ! 1) = Calling \<and>
   length (timers (exec stop_start_run session)) = 9 \<and>
   positions_thread (exec stop_start_run session) = Some 5 \<and>
   logger (exec stop_start_run session) = [] \<and>
   func (timers (exec two_refreshers_run session) ! 1) = Update_positions \<and>
   pc (timers (exec two_refreshers_run session) ! 1) = Calling \<and>
   func (timers (exec two_refreshers_run session) ! 5) = Update_positions \<and>
   pc (timers (exec two_refreshers_run session) ! 5) = Calling"
  unfolding two_refreshers_state stop_start_state by (simp add: session_value)

section \<open>Logging out\<close>

lemma logout_authenticated:
  "logout (s\<lparr>authd := True\<rparr>) =
     (Inl (AttributeError ''stop_treads''),
      s\<lparr>authd := True, ident := None, config := empty_config\<rparr>)"
  by (simp add: logout_def logout_body_def req_auth_def)

text \<open>
  C4 at the example session, which is logged in and has its four refresh threads:
  \<open>logout\<close> clears the identifier and the configuration and then raises
  \<open>AttributeError\<close>, because it calls \<open>stop_treads\<close>. The event is not set, the
  global still refers to it, the four thread fields still hold the threads, and
  \<open>authd\<close> is still true.
\<close>

theorem logout_raises_AttributeError:
  "logout session =
     (Inl (AttributeError ''stop_treads''),
      session\<lparr>ident := None, config := empty_config\<rparr>) \<and>
   authd (snd (logout session)) \<and>
   events (snd (logout session)) = [False] \<and>
   stop_event (snd (logout session)) = Some 0 \<and>
   positions_thread (snd (logout session)) = Some 1 \<and>
   activity_thread (snd (logout session)) = Some 2 \<and>
   orders_thread (snd (logout session)) = Some 3 \<and>
   trackers_thread (snd (logout session)) = Some 4"
  by (simp add: logout_def logout_body_def req_auth_def session_value)

section \<open>Restarting while a refresh action runs\<close>

lemma race_state:
  "exec restart_race session =
     session\<lparr>positions_thread := Some 5, activity_thread := Some 6, orders_thread := Some 7,
       trackers_thread := Some 8, stop_event := Some 1, events := [True, False],
       timers :=
        [\<lparr>interval = 1, func = Update_status, pc = Looping\<rparr>,
         \<lparr>interval = 5, func = Update_positions, pc = Waiting 1\<rparr>,
         \<lparr>interval = 5, func = Update_activity, pc = Looping\<rparr>,
         \<lparr>interval = 5, func = Update_orders, pc = Looping\<rparr>,
         \<lparr>interval = 5, func = Update_trackers, pc = Looping\<rparr>,
         \<lparr>interval = 5, func = Update_positions, pc = Looping\<rparr>,
         \<lparr>interval = 5, func = Update_activity, pc = Looping\<rparr>,
         \<lparr>interval = 5, func = Update_orders, pc = Looping\<rparr>,
         \<lparr>interval = 5, func = Update_trackers, pc = Looping\<rparr>],
       positions_field := header '' POSITIONS '',
       logger := [''Updating positions...'']\<rparr>"
  unfolding restart_race_def exec_append into_tick_state
  by (simp add: session_value step_def thread_step_def set_pc_def is_set_def
      restart_threads_def stop_threads_def stop_threads_body_def start_threads_def
      start_threads_body_def req_auth_def bind_def RepeatTimer_def start_def Let_def
      config_default_def run_func_def update_positions_def update_positions_body_def
      log_line_def example_env_def)

lemma race_then_tick:
  "exec (restart_race @ [(example_env, Thread 1)]) session =
     (exec restart_race session)\<lparr>timers := (timers (exec restart_race session))
        [1 := \<lparr>interval = 5, func = Update_positions, pc = Calling\<rparr>]\<rparr>"
  unfolding exec_append race_state
  by (simp add: session_value step_def thread_step_def set_pc_def is_set_def)

lemma race_then_stop:
  "exec (restart_race @ [(example_env, Call_stop_threads), (example_env, Thread 1)]) session =
     (exec restart_race session)\<lparr>positions_thread := None, activity_thread := None,
        orders_thread := None, trackers_thread := None, stop_event := None,
        events := [True, True],
        timers := (timers (exec restart_race session))
          [1 := \<lparr>interval = 5, func = Update_positions, pc = Finished\<rparr>]\<rparr>"
  unfolding exec_append race_state
  by (simp add: session_value step_def thread_step_def set_pc_def is_set_def
      stop_threads_def stop_threads_body_def req_auth_def)

text \<open>
  C1 at the example session, in the run \<open>restart_race\<close>. The positions timer of the
  first generation, timer 1, is inside its action when \<open>restart_threads\<close> sets the
  event of its generation, event 0, and installs event 1 with four new timers, 5 to 8.
  The old timer was not waiting on event 0, so it does not see it set; back at the head
  of its loop it reads the global again, finds event 1 and waits on it. When its
  interval ends, the action of the first generation is called again, beside the
  positions timer of the second generation, which is alive. If instead
  \<open>stop_threads\<close> is called for the second generation, it is the old timer that
  returns from \<open>wait\<close> on event 1 and ends.
\<close>

theorem stale_task_survives_restart:
  "pc (timers (exec (restart_race @ [(example_env, Thread 1)]) session) ! 1) = Calling \<and>
   func (timers (exec (restart_race @ [(example_env, Thread 1)]) session) ! 1) =
     Update_positions \<and>
   positions_thread (exec (restart_race @ [(example_env, Thread 1)]) session) = Some 5 \<and>
   func (timers (exec (restart_race @ [(example_env, Thread 1)]) session) ! 5) =
     Update_positions \<and>
   pc (timers (exec (restart_race @ [(example_env, Thread 1)]) session) ! 5) = Looping \<and>
   stop_event (exec (restart_race @ [(example_env, Thread 1)]) session) = Some 1 \<and>
   events (exec (restart_race @ [(example_env, Thread 1)]) session) = [True, False] \<and>
   pc (timers (exec restart_race session) ! 1) = Waiting 1 \<and>
   pc (timers (exec (restart_race @ [(example_env, Call_stop_threads), (example_env, Thread 1)])
         session) ! 1) = Finished"
  unfolding race_then_tick race_then_stop race_state by simp

section \<open>A tick that fails\<close>

text \<open>
  No method called on the main thread changes a timer that exists: \<open>start_threads\<close>
  appends new ones, the others leave the timers alone. The refresh actions leave them
  alone too.
\<close>

lemma keeps_timers_same: "timers s' = timers s \<Longrightarrow> keeps_timers s s'"
  by (simp add: keeps_timers_def)

lemma keeps_timers_trans: "keeps_timers s s1 \<Longrightarrow> keeps_timers s1 s2 \<Longrightarrow> keeps_timers s s2"
  by (auto simp: keeps_timers_def)

lemma keeps_timers_bind:
  assumes "keeps_timers s (snd r)" and "\<And>a s1. keeps_timers s1 (snd (f a s1))"
  shows "keeps_timers s (snd (bind r f))"
proof (cases r)
  case (Pair res s1)
  then show ?thesis
    using assms keeps_timers_trans [of s s1] by (cases res) (auto simp: bind_def)
qed

lemma keeps_timers_req_auth:
  assumes "\<And>s. keeps_timers s (snd (method s))"
  shows "keeps_timers s (snd (req_auth method s))"
  using assms by (simp add: req_auth_def msg_out_def keeps_timers_same)

lemma keeps_timers_for_each:
  assumes "\<And>x s. keeps_timers s (snd (body x s))"
  shows "keeps_timers s (snd (for_each body xs s))"
proof (induction xs arbitrary: s)
  case Nil
  show ?case by (simp add: keeps_timers_same)
next
  case (Cons x xs)
  show ?case by (simp add: keeps_timers_bind assms Cons.IH)
qed

lemma timers_update_positions [simp]: "timers (snd (update_positions env s)) = timers s"
  by (simp add: update_positions_def update_positions_body_def req_auth_def msg_out_def
      log_line_def Let_def split: option.splits sum.splits)

lemma timers_update_activity [simp]: "timers (snd (update_activity env s)) = timers s"
  by (simp add: update_activity_def update_activity_body_def req_auth_def msg_out_def
      log_line_def Let_def split: option.splits sum.splits)

lemma timers_update_orders [simp]: "timers (snd (update_orders env s)) = timers s"
  by (simp add: update_orders_def update_orders_body_def req_auth_def msg_out_def
      log_line_def Let_def split: option.splits sum.splits)

lemma timers_update_trackers [simp]: "timers (snd (update_trackers env s)) = timers s"
  by (simp add: update_trackers_def update_trackers_body_def req_auth_def msg_out_def
      log_line_def Let_def split: option.splits sum.splits)

lemma timers_update_status [simp]: "timers (snd (update_status env s)) = timers s"
  by (simp add: update_status_def)

lemma timers_run_func [simp]: "timers (snd (run_func env f s)) = timers s"
  by (cases f) (simp_all add: run_func_def)

lemma keeps_timers_start_threads: "keeps_timers s (snd (start_threads s))"
  by (auto simp: start_threads_def start_threads_body_def req_auth_def msg_out_def log_line_def
      RepeatTimer_def start_def set_pc_def Let_def keeps_timers_def list_update_append
      split: option.splits)

lemma keeps_timers_stop_threads: "keeps_timers s (snd (stop_threads s))"
  by (auto simp: stop_threads_def stop_threads_body_def req_auth_def msg_out_def
      keeps_timers_def split: option.splits)

lemma keeps_timers_restart_threads: "keeps_timers s (snd (restart_threads s))"
  unfolding restart_threads_def
  by (intro keeps_timers_req_auth keeps_timers_bind keeps_timers_stop_threads
      keeps_timers_start_threads)

lemma keeps_timers_logout: "keeps_timers s (snd (logout s))"
  by (simp add: logout_def logout_body_def req_auth_def msg_out_def keeps_timers_same)

lemma keeps_timers_exit: "keeps_timers s (snd (exit_ctrl_q s))"
  by (simp add: exit_ctrl_q_def keeps_timers_same split: option.splits)

lemma keeps_timers_load_config: "keeps_timers s (snd (load_config filename s))"
  by (simp add: load_config_def load_config_body_def req_auth_def msg_out_def Let_def
      keeps_timers_same split: option.splits sum.splits)

lemma keeps_timers_login: "keeps_timers s (snd (login env u p s))"
proof -
  have "keeps_timers s (snd (bind (load_config ''config.yml'' (s\<lparr>authd := True, ident := Some u\<rparr>))
                   (\<lambda>_ s1. bind (start_threads s1) (\<lambda>_ s2. (Inr True, s2)))))"
  proof (rule keeps_timers_bind)
    have "keeps_timers (s\<lparr>authd := True, ident := Some u\<rparr>)
            (snd (load_config ''config.yml'' (s\<lparr>authd := True, ident := Some u\<rparr>)))"
      by (rule keeps_timers_load_config)
    then show "keeps_timers s (snd (load_config ''config.yml'' (s\<lparr>authd := True, ident := Some u\<rparr>)))"
      by (simp add: keeps_timers_def)
  next
    fix a s1
    show "keeps_timers s1 (snd (bind (start_threads s1) (\<lambda>_ s2. (Inr True, s2))))"
      by (intro keeps_timers_bind keeps_timers_start_threads) (simp add: keeps_timers_same)
  qed
  then show ?thesis
    by (simp add: login_def keeps_timers_same split: option.splits sum.splits)
qed


lemma timers_store_tracked: "timers (store_tracked xs s) = timers s"
  by (simp add: store_tracked_def split: option.splits list_ref.splits)

lemma keeps_timers_add_tracker: "keeps_timers s (snd (add_tracker env e s))"
  by (simp add: add_tracker_def add_tracker_body_def req_auth_def msg_out_def keeps_timers_same
      timers_store_tracked split: option.splits sum.splits)

lemma keeps_timers_del_tracker: "keeps_timers s (snd (del_tracker e s))"
  by (simp add: del_tracker_def del_tracker_body_def req_auth_def msg_out_def keeps_timers_same
      timers_store_tracked split: option.splits)

lemma keeps_timers_write_config: "keeps_timers s (snd (write_config s))"
  by (simp add: write_config_def write_config_body_def req_auth_def msg_out_def keeps_timers_same
      split: option.splits)

lemma keeps_timers_msg: "keeps_timers s (snd (Inr (), msg_out t s))"
  by (simp add: msg_out_def keeps_timers_same)

lemma keeps_timers_cmd_update: "keeps_timers s (snd (cmd_update env args s))"
  unfolding cmd_update_def
  by (intro keeps_timers_req_auth keeps_timers_bind keeps_timers_msg)
    (simp_all add: keeps_timers_same)

lemma keeps_timers_cmd_api: "keeps_timers s (snd (cmd_api args s))"
  by (simp add: cmd_api_def set_api_def msg_out_def keeps_timers_same split: list.splits)

lemma keeps_timers_cmd_login: "keeps_timers s (snd (cmd_login env args s))"
proof -
  have "keeps_timers s (snd (bind (login env u p s) (\<lambda>successful s1.
            (Inr (), msg_out (if successful then ''Login successful'' else ''Login failed'') s1))))"
    for u p
    by (intro keeps_timers_bind keeps_timers_login keeps_timers_msg)
  then show ?thesis
    by (simp add: cmd_login_def msg_out_def keeps_timers_same split: list.splits)
qed

lemma keeps_timers_cmd_save: "keeps_timers s (snd (cmd_save args s))"
  unfolding cmd_save_def
  by (intro keeps_timers_bind keeps_timers_write_config keeps_timers_msg)

lemma keeps_timers_cmd_track: "keeps_timers s (snd (cmd_track env args s))"
  unfolding cmd_track_def
  by (intro keeps_timers_bind keeps_timers_for_each keeps_timers_add_tracker keeps_timers_msg)

lemma keeps_timers_cmd_stoptrack: "keeps_timers s (snd (cmd_stoptrack args s))"
  unfolding cmd_stoptrack_def
  by (intro keeps_timers_bind keeps_timers_for_each keeps_timers_del_tracker keeps_timers_msg)

lemma keeps_timers_cmd_search: "keeps_timers s (snd (cmd_search env args s))"
  by (simp add: cmd_search_def msg_out_def keeps_timers_same
      split: option.splits list.splits sum.splits)

lemma keeps_timers_cmd_buy: "keeps_timers s (snd (cmd_buy env args s))"
  by (simp add: cmd_buy_def msg_out_def keeps_timers_same
      split: option.splits list.splits sum.splits)

lemma keeps_timers_cmd_alias: "keeps_timers s (snd (cmd_alias args s))"
  by (simp add: cmd_alias_def msg_out_def keeps_timers_same split: option.splits list.splits)

lemma keeps_timers_command:
  "command env cmd = Some handler \<Longrightarrow> keeps_timers s (snd (handler args s))"
  by (auto simp: command_def keeps_timers_cmd_update keeps_timers_cmd_api
      keeps_timers_cmd_login keeps_timers_cmd_save keeps_timers_cmd_track
      keeps_timers_cmd_stoptrack keeps_timers_cmd_search keeps_timers_cmd_buy
      keeps_timers_cmd_alias split: if_splits)

lemma keeps_timers_parse: "keeps_timers s (snd (parse env line s))"
proof -
  have same: "timers (log_line t s) = timers s" for t
    by (simp add: log_line_def)
  have "keeps_timers (log_line (''Input: '' @ line) s) (snd (parse env line s))"
    by (auto simp: parse_def Let_def keeps_timers_same keeps_timers_command msg_out_def
        split: sum.splits list.splits option.splits)
  then show ?thesis by (simp add: keeps_timers_def same)
qed

text \<open>A timer that an exception has ended stays so through every move.\<close>

lemma thread_step_crashed:
  assumes "i < length (timers s)" and "pc (timers s ! i) = Crashed e"
  shows "i < length (timers (thread_step env j s)) \<and>
         pc (timers (thread_step env j s) ! i) = Crashed e"
proof (cases "j = i")
  case True
  with assms show ?thesis by (simp add: thread_step_def)
next
  case False
  obtain r s1 where run: "run_func env (func (timers s ! j)) s = (r, s1)"
    by (cases "run_func env (func (timers s ! j)) s")
  have "timers s1 = timers s"
    using timers_run_func [of env "func (timers s ! j)" s] run by simp
  then show ?thesis
    using assms False run
    by (auto simp: thread_step_def set_pc_def split: pc.splits option.splits sum.splits)
qed

lemma keeps_timers_crashed:
  "keeps_timers s s' \<Longrightarrow> i < length (timers s) \<Longrightarrow> pc (timers s ! i) = Crashed e \<Longrightarrow>
   i < length (timers s') \<and> pc (timers s' ! i) = Crashed e"
  by (auto simp: keeps_timers_def nth_append)

lemma step_crashed:
  assumes "i < length (timers s)" and "pc (timers s ! i) = Crashed e"
  shows "i < length (timers (step env m s)) \<and> pc (timers (step env m s) ! i) = Crashed e"
proof (cases m)
  case (Thread j)
  then show ?thesis using thread_step_crashed [OF assms] by (simp add: step_def)
next
  case (Call_parse line)
  then show ?thesis
    using keeps_timers_crashed [OF keeps_timers_parse assms] by (simp add: step_def)
next
  case Call_logout
  then show ?thesis
    using keeps_timers_crashed [OF keeps_timers_logout assms] by (simp add: step_def)
next
  case Call_start_threads
  then show ?thesis
    using keeps_timers_crashed [OF keeps_timers_start_threads assms] by (simp add: step_def)
next
  case Call_stop_threads
  then show ?thesis
    using keeps_timers_crashed [OF keeps_timers_stop_threads assms] by (simp add: step_def)
next
  case Call_restart_threads
  then show ?thesis
    using keeps_timers_crashed [OF keeps_timers_restart_threads assms] by (simp add: step_def)
next
  case Key_exit
  then show ?thesis
    using keeps_timers_crashed [OF keeps_timers_exit assms] by (simp add: step_def)
qed

lemma exec_crashed:
  "i < length (timers s) \<Longrightarrow> pc (timers s ! i) = Crashed e \<Longrightarrow>
   i < length (timers (exec ms s)) \<and> pc (timers (exec ms s) ! i) = Crashed e"
proof (induction ms arbitrary: s)
  case Nil
  then show ?case by simp
next
  case (Cons m ms)
  obtain env mv where m: "m = (env, mv)" by (cases m)
  from step_crashed [OF Cons.prems, of env mv] Cons.IH [of "step env mv s"]
  show ?case by (simp add: m)
qed

text \<open>
  C2, as the code has it. When the action of a timer raises during a tick, the
  exception is not caught: the thread of the timer ends with it, and whatever moves
  follow, of this thread, of the others or of the main thread, the timer stays ended
  and is never inside its action again.
\<close>

theorem failing_tick_ends_loop:
  assumes "i < length (timers s)" and "pc (timers s ! i) = Calling"
    and "fst (run_func env (func (timers s ! i)) s) = Inl e"
  shows "pc (timers (thread_step env i s) ! i) = Crashed e \<and>
         pc (timers (exec ms (thread_step env i s)) ! i) = Crashed e"
proof -
  obtain s1 where run: "run_func env (func (timers s ! i)) s = (Inl e, s1)"
    using assms(3) by (cases "run_func env (func (timers s ! i)) s") auto
  have "timers s1 = timers s"
    using timers_run_func [of env "func (timers s ! i)" s] run by simp
  then have now: "i < length (timers (thread_step env i s)) \<and>
      pc (timers (thread_step env i s) ! i) = Crashed e"
    using assms(1,2) run by (simp add: thread_step_def set_pc_def)
  with exec_crashed [of i "thread_step env i s" e ms] show ?thesis by simp
qed

lemma failing_run:
  "fst (run_func failing_env (func (timers (exec into_tick session) ! 1))
         (exec into_tick session)) = Inl (ClientError ''timeout'')"
  unfolding into_tick_state
  by (simp add: session_value run_func_def update_positions_def update_positions_body_def
      req_auth_def log_line_def failing_env_def example_env_def)

theorem failing_tick_ends_loop_witness:
  "pc (timers (exec into_tick session) ! 1) = Calling \<and>
   pc (timers (exec into_tick (thread_step failing_env 1 (exec into_tick session))) ! 1) =
     Crashed (ClientError ''timeout'')"
proof -
  have a: "1 < length (timers (exec into_tick session))"
    unfolding into_tick_state by (simp add: session_value)
  have b: "pc (timers (exec into_tick session) ! 1) = Calling"
    unfolding into_tick_state by (simp add: session_value)
  from failing_tick_ends_loop [OF a b failing_run, of into_tick] b show ?thesis by simp
qed

text \<open>
  C2 as the specification words it fails at the example session when the client times
  out during the first tick of the positions timer: the timer ends with the client's
  error, nothing but the debug line of the action is logged, and the moves that follow
  do not bring a next tick. After a tick that succeeds the same moves do.
\<close>

theorem failing_tick_counterexample:
  "pc (timers (exec (into_tick @ [(failing_env, Thread 1)] @ into_tick) session) ! 1) =
     Crashed (ClientError ''timeout'') \<and>
   logger (exec (into_tick @ [(failing_env, Thread 1)] @ into_tick) session) =
     [''Updating positions...''] \<and>
   pc (timers (exec (into_tick @ [(example_env, Thread 1)] @ into_tick) session) ! 1) = Calling"
proof -
  have crash: "exec (into_tick @ [(failing_env, Thread 1)] @ into_tick) session =
     session\<lparr>timers := (timers session)
       [1 := \<lparr>interval = 5, func = Update_positions,
              pc = Crashed (ClientError ''timeout'')\<rparr>],
       logger := [''Updating positions...'']\<rparr>"
    unfolding exec_append into_tick_state
    by (simp add: session_value into_tick_def step_def thread_step_def set_pc_def run_func_def
        update_positions_def update_positions_body_def req_auth_def log_line_def
        failing_env_def example_env_def)
  have good: "exec (into_tick @ [(example_env, Thread 1)] @ into_tick) session =
     session\<lparr>timers := (timers session)
       [1 := \<lparr>interval = 5, func = Update_positions, pc = Calling\<rparr>],
       positions_field := header '' POSITIONS '',
       logger := [''Updating positions...'']\<rparr>"
    unfolding exec_append into_tick_state
    by (simp add: session_value into_tick_def step_def thread_step_def set_pc_def is_set_def
        run_func_def update_positions_def update_positions_body_def req_auth_def log_line_def
        example_env_def)
  show ?thesis
    unfolding crash good by (simp add: session_value)
qed

end
